theory Spec2Isabelle
  imports Complex_Main
begin

section \<open>Errors\<close>

text \<open>
  The Python exceptions the modelled code can raise. The repository raises
  \<^verbatim>\<open>ValueError\<close> with a message for its own checks; \<^verbatim>\<open>AssertionError\<close> is what the
  FAISS Python wrapper raises on a width mismatch or a non-positive \<^verbatim>\<open>k\<close>;
  \<^verbatim>\<open>IndexError\<close> is an out-of-range subscript; \<^verbatim>\<open>ExternalError\<close> stands for a failure
  of an external capability (embedding, generation, text extraction, a corrupt file).
\<close>

datatype error =
    ValueError string
  | AssertionError
  | IndexError
  | ExternalError string

section \<open>Chunker (core/chunker.py)\<close>

record Chunk =
  chunk_id :: string
  chunk_text :: string
  source_file :: string
  start_char :: int
  end_char :: int

record TextChunker =
  chunk_size :: int
  overlap :: int

text \<open>\<^verbatim>\<open>TextChunker.__init__\<close>: rejects \<^verbatim>\<open>overlap >= chunk_size\<close>.\<close>

definition TextChunker_init :: "int \<Rightarrow> int \<Rightarrow> error + TextChunker" where
  "TextChunker_init cs ov =
     (if ov \<ge> cs then Inl (ValueError ''chunk_overlap must be smaller than chunk_size'')
      else Inr \<lparr>chunk_size = cs, overlap = ov\<rparr>)"

text \<open>
  Characters are code points below 256. \<^verbatim>\<open>str.isspace\<close> (and \<^verbatim>\<open>\s\<close> of \<^verbatim>\<open>re\<close>) in that
  range: TAB, LF, VT, FF, CR, the separators 0x1C to 0x1F, space, NEL (0x85) and
  the no-break space (0xA0).
\<close>

definition isspace :: "char \<Rightarrow> bool" where
  "isspace c = ((of_char c :: nat) \<in> {9, 10, 11, 12, 13, 28, 29, 30, 31, 32, 133, 160})"

text \<open>\<^verbatim>\<open>str.strip()\<close>: drop leading and trailing whitespace.\<close>

definition strip :: "string \<Rightarrow> string" where
  "strip s = rev (dropWhile isspace (rev (dropWhile isspace s)))"

text \<open>
  A slice bound of Python, for a sequence of length \<open>n\<close>: a negative bound counts
  from the end, and the result is clamped to \<open>0..n\<close>.
\<close>

definition slice_bound :: "int \<Rightarrow> int \<Rightarrow> nat" where
  "slice_bound n i = (if i < 0 then nat (max (i + n) 0) else nat (min i n))"

text \<open>\<^verbatim>\<open>s[a:b]\<close>.\<close>

definition pyslice :: "'a list \<Rightarrow> int \<Rightarrow> int \<Rightarrow> 'a list" where
  "pyslice s a b =
     (let n = int (length s); lo = slice_bound n a; hi = slice_bound n b
      in take (hi - lo) (drop lo s))"

text \<open>\<^verbatim>\<open>str(n)\<close> for a non-negative integer: its decimal digits.\<close>

fun str_nat :: "nat \<Rightarrow> string" where
  "str_nat n =
     (if n < 10 then [''0123456789'' ! n]
      else str_nat (n div 10) @ [''0123456789'' ! (n mod 10)])"

declare str_nat.simps [simp del]

text \<open>
  The body of the \<^verbatim>\<open>for start in range(0, len(text), step)\<close> loop of
  \<^verbatim>\<open>chunk_document\<close>, for a positive step: \<open>start\<close> is the loop variable and
  \<open>index\<close> the counter of emitted chunks. A window that is empty after trimming is
  skipped (\<^verbatim>\<open>continue\<close>); a window that ends at the end of the text is the last
  (\<^verbatim>\<open>break\<close>).
\<close>

function chunk_loop :: "int \<Rightarrow> int \<Rightarrow> string \<Rightarrow> string \<Rightarrow> int \<Rightarrow> nat \<Rightarrow> Chunk list" where
  "chunk_loop csize step txt src start index =
     (if step \<le> 0 \<or> start \<ge> int (length txt) then []
      else
        let end_pos = min (start + csize) (int (length txt));
            window = strip (pyslice txt start end_pos)
        in if window = [] then chunk_loop csize step txt src (start + step) index
           else
             \<lparr>chunk_id = src @ ''-'' @ str_nat index, chunk_text = window, source_file = src,
              start_char = start, end_char = end_pos\<rparr>
             # (if end_pos = int (length txt) then []
                else chunk_loop csize step txt src (start + step) (Suc index)))"
  by pat_completeness auto
termination
  by (relation "measure (\<lambda>(csize, step, txt, src, start, index). nat (int (length txt) - start))")
     auto

declare chunk_loop.simps [simp del]

text \<open>
  \<^verbatim>\<open>TextChunker.chunk_document\<close>. \<^verbatim>\<open>range\<close> raises \<^verbatim>\<open>ValueError\<close> for a zero step
  and is empty for a negative one; neither happens for a chunker built by
  \<open>TextChunker_init\<close>.
\<close>

definition chunk_document :: "TextChunker \<Rightarrow> string \<Rightarrow> string \<Rightarrow> error + Chunk list" where
  "chunk_document c txt src =
     (let step = chunk_size c - overlap c
      in if step = 0 then Inl (ValueError ''range() arg 3 must not be zero'')
         else Inr (chunk_loop (chunk_size c) step txt src 0 0))"

section \<open>Arrays and the FAISS flat index (external library)\<close>

text \<open>
  A NumPy array of 32-bit floats, of one or two dimensions: \<open>Arr1 v\<close> has shape
  \<open>(length v)\<close>, \<open>Arr2 c rows\<close> has shape \<open>(length rows, c)\<close>. Floats are modelled by
  the reals; nothing below depends on rounding.
\<close>

datatype ndarray = Arr1 "real list" | Arr2 nat "real list list"

text \<open>\<^verbatim>\<open>len(a)\<close>: the first dimension.\<close>

fun len_arr :: "ndarray \<Rightarrow> nat" where
  "len_arr (Arr1 v) = length v"
| "len_arr (Arr2 c rows) = length rows"

text \<open>\<^verbatim>\<open>a.shape[1]\<close>: the tuple \<^verbatim>\<open>shape\<close> of a one-dimensional array has no index 1.\<close>

fun shape1 :: "ndarray \<Rightarrow> error + nat" where
  "shape1 (Arr1 v) = Inl IndexError"
| "shape1 (Arr2 c rows) = Inr c"

text \<open>
  \<^verbatim>\<open>faiss.IndexFlatIP\<close>: the width \<^verbatim>\<open>d\<close> and the stored vectors in insertion order;
  \<^verbatim>\<open>ntotal\<close> is their number.
\<close>

record IndexFlatIP =
  index_d :: nat
  index_xb :: "real list list"

definition IndexFlatIP_new :: "nat \<Rightarrow> IndexFlatIP" where
  "IndexFlatIP_new dm = \<lparr>index_d = dm, index_xb = []\<rparr>"

definition ntotal :: "IndexFlatIP \<Rightarrow> nat" where
  "ntotal ix = length (index_xb ix)"

text \<open>
  \<^verbatim>\<open>index.add(x)\<close>: the wrapper unpacks \<^verbatim>\<open>n, d = x.shape\<close> and asserts
  \<^verbatim>\<open>d == self.d\<close> before it appends the rows.
\<close>

fun faiss_add :: "IndexFlatIP \<Rightarrow> ndarray \<Rightarrow> error + IndexFlatIP" where
  "faiss_add ix (Arr1 v) = Inl (ValueError ''not enough values to unpack (expected 2, got 1)'')"
| "faiss_add ix (Arr2 c rows) =
     (if c \<noteq> index_d ix then Inl AssertionError
      else Inr (ix\<lparr>index_xb := index_xb ix @ rows\<rparr>))"

text \<open>The inner product of two vectors.\<close>

definition inner_product :: "real list \<Rightarrow> real list \<Rightarrow> real" where
  "inner_product q v = sum_list (map (\<lambda>(a, b). a * b) (zip q v))"

text \<open>The score that pads a result row when fewer than \<^verbatim>\<open>k\<close> vectors are stored: the lowest float.\<close>

definition neg_flt_max :: real where
  "neg_flt_max = - 340282346638528859811704183484516925440"

text \<open>
  The library does not say in which order it returns stored vectors of equal score, nor
  which of them it keeps when the cut to \<open>k\<close> falls among them. The model takes that
  choice as a parameter: \<open>tie ix q k i\<close> is the rank of position \<open>i\<close> among the
  positions of equal score, for the query \<open>q\<close> and \<open>k\<close> results asked of the index
  \<open>ix\<close>; the lower rank comes first, and positions of equal rank stay in insertion
  order. Every order of the equal scores is the order of some \<open>tie\<close>, and the
  properties below hold for every \<open>tie\<close>.
\<close>

type_synonym tie_break = "IndexFlatIP \<Rightarrow> real list \<Rightarrow> nat \<Rightarrow> nat \<Rightarrow> nat"

text \<open>
  The stored positions with their scores against the query \<open>q\<close>, ranked by descending
  inner product, and by \<open>tie\<close> among equal scores: both sorts are stable, so the
  second keeps the order of the first where the scores are equal.
\<close>

definition ranked :: "tie_break \<Rightarrow> IndexFlatIP \<Rightarrow> nat \<Rightarrow> real list \<Rightarrow> (nat \<times> real) list" where
  "ranked tie ix k q =
     sort_key (\<lambda>(i, s). - s)
       (sort_key (\<lambda>(i, s). tie ix q k i)
          (zip [0..<ntotal ix] (map (inner_product q) (index_xb ix))))"

text \<open>
  The result row of one query: the ranking cut to \<open>k\<close> entries, and padded to \<open>k\<close>
  entries with the label \<open>-1\<close> when fewer vectors are stored.
\<close>

definition search_row ::
  "tie_break \<Rightarrow> IndexFlatIP \<Rightarrow> nat \<Rightarrow> real list \<Rightarrow> real list \<times> int list" where
  "search_row tie ix k q =
     (let best = take k (ranked tie ix k q);
          pad = k - length best
      in (map snd best @ replicate pad neg_flt_max,
          map (\<lambda>(i, s). int i) best @ replicate pad (- 1)))"

text \<open>
  \<^verbatim>\<open>index.search(x, k)\<close>: the wrapper asserts \<^verbatim>\<open>d == self.d\<close> and \<^verbatim>\<open>k > 0\<close>; the
  result is the pair of the score rows and the label rows, one row per query.
\<close>

fun faiss_search ::
  "tie_break \<Rightarrow> IndexFlatIP \<Rightarrow> ndarray \<Rightarrow> int \<Rightarrow> error + (real list list \<times> int list list)" where
  "faiss_search tie ix (Arr1 v) k =
     Inl (ValueError ''not enough values to unpack (expected 2, got 1)'')"
| "faiss_search tie ix (Arr2 c rows) k =
     (if c \<noteq> index_d ix then Inl AssertionError
      else if k \<le> 0 then Inl AssertionError
      else Inr (map (\<lambda>q. fst (search_row tie ix (nat k) q)) rows,
                map (\<lambda>q. snd (search_row tie ix (nat k) q)) rows))"

section \<open>Vector store (core/vector_store.py)\<close>

text \<open>The settings the modelled code reads (config.py); \<open>default_index_name\<close> is \<^verbatim>\<open>settings.index_name\<close>.\<close>

record Settings =
  index_dir :: string
  default_index_name :: string
  retriever_top_k :: int
  retriever_score_threshold :: real

text \<open>
  A file on disk holds what was written to it: an index written by
  \<^verbatim>\<open>faiss.write_index\<close>, a metadata document written from \<^verbatim>\<open>json.dumps\<close>, or
  anything else. Reading decodes the value that was encoded.
\<close>

datatype disk_file = IndexFile IndexFlatIP | MetaFile "Chunk list" | OtherFile string

type_synonym filesystem = "string \<rightharpoonup> disk_file"

text \<open>
  The store. A metadata entry is the dictionary \<^verbatim>\<open>asdict(chunk)\<close>, which has exactly
  the fields of the chunk, so it is kept as the chunk record.
\<close>

record FaissVectorStore =
  index_name :: string
  index_path :: string
  meta_path :: string
  index :: "IndexFlatIP option"
  metadata :: "Chunk list"

definition FaissVectorStore_init :: "Settings \<Rightarrow> string option \<Rightarrow> FaissVectorStore" where
  "FaissVectorStore_init cfg nm =
     (let name = (case nm of None \<Rightarrow> default_index_name cfg
                  | Some n \<Rightarrow> if n = [] then default_index_name cfg else n)
      in \<lparr>index_name = name,
          index_path = index_dir cfg @ ''/'' @ name @ ''.faiss'',
          meta_path = index_dir cfg @ ''/'' @ name @ ''.json'',
          index = None,
          metadata = []\<rparr>)"

text \<open>\<^verbatim>\<open>FaissVectorStore.add\<close>: the outcome and the store after the call.\<close>

definition add :: "FaissVectorStore \<Rightarrow> ndarray \<Rightarrow> Chunk list \<Rightarrow> (error + unit) \<times> FaissVectorStore" where
  "add st embeddings chunks =
     (if length chunks \<noteq> len_arr embeddings
      then (Inl (ValueError ''Embeddings/chunks length mismatch''), st)
      else
        case shape1 embeddings of
          Inl e \<Rightarrow> (Inl e, st)
        | Inr dm \<Rightarrow>
            let ix = (case index st of None \<Rightarrow> IndexFlatIP_new dm | Some ix \<Rightarrow> ix);
                st1 = st\<lparr>index := Some ix\<rparr>
            in case faiss_add ix embeddings of
                 Inl e \<Rightarrow> (Inl e, st1)
               | Inr ix' \<Rightarrow> (Inr (), st1\<lparr>index := Some ix', metadata := metadata st1 @ chunks\<rparr>))"

text \<open>\<^verbatim>\<open>xs[i]\<close> of a Python list: a negative index counts from the end.\<close>

definition py_get :: "'a list \<Rightarrow> int \<Rightarrow> error + 'a" where
  "py_get xs i =
     (if 0 \<le> i \<and> i < int (length xs) then Inr (xs ! nat i)
      else if i < 0 \<and> - int (length xs) \<le> i then Inr (xs ! nat (int (length xs) + i))
      else Inl IndexError)"

text \<open>
  The loop of \<^verbatim>\<open>search\<close> over \<^verbatim>\<open>zip(indices[0], scores[0])\<close>: the label \<open>-1\<close> is skipped,
  every other label reads the metadata at that position.
\<close>

fun decode :: "Chunk list \<Rightarrow> (int \<times> real) list \<Rightarrow> error + (Chunk \<times> real) list" where
  "decode md [] = Inr []"
| "decode md ((idx, score) # rest) =
     (if idx = - 1 then decode md rest
      else case py_get md idx of
             Inl e \<Rightarrow> Inl e
           | Inr m \<Rightarrow> (case decode md rest of
                         Inl e \<Rightarrow> Inl e
                       | Inr rs \<Rightarrow> Inr ((m, score) # rs)))"

text \<open>\<^verbatim>\<open>FaissVectorStore.search\<close>; \<open>tie\<close> is the tie order of the index library.\<close>

definition search ::
  "tie_break \<Rightarrow> FaissVectorStore \<Rightarrow> ndarray \<Rightarrow> int \<Rightarrow> error + (Chunk \<times> real) list" where
  "search tie st query_vector top_k =
     (case index st of
        None \<Rightarrow> Inr []
      | Some ix \<Rightarrow>
          if ntotal ix = 0 then Inr []
          else
            let query = (case query_vector of Arr1 v \<Rightarrow> Arr2 (length v) [v] | Arr2 c rows \<Rightarrow> query_vector)
            in case faiss_search tie ix query top_k of
                 Inl e \<Rightarrow> Inl e
               | Inr (scores, indices) \<Rightarrow>
                   (case indices of
                      [] \<Rightarrow> Inl IndexError
                    | i0 # _ \<Rightarrow>
                        (case scores of
                           [] \<Rightarrow> Inl IndexError
                         | s0 # _ \<Rightarrow> decode (metadata st) (zip i0 s0))))"

text \<open>\<^verbatim>\<open>FaissVectorStore.save\<close>: nothing is written while no index exists.\<close>

definition save :: "FaissVectorStore \<times> filesystem \<Rightarrow> FaissVectorStore \<times> filesystem" where
  "save s =
     (case s of (st, fs) \<Rightarrow>
        (case index st of
           None \<Rightarrow> (st, fs)
         | Some ix \<Rightarrow>
             (st, (fs(index_path st \<mapsto> IndexFile ix))(meta_path st \<mapsto> MetaFile (metadata st)))))"

text \<open>
  \<^verbatim>\<open>FaissVectorStore.load\<close>: the returned flag and the store after the call. A file
  that is not what the reader expects makes the reader fail.
\<close>

definition load :: "FaissVectorStore \<Rightarrow> filesystem \<Rightarrow> (error + bool) \<times> FaissVectorStore" where
  "load st fs =
     (if fs (index_path st) = None \<or> fs (meta_path st) = None then (Inr False, st)
      else
        case fs (index_path st) of
          Some (IndexFile ix) \<Rightarrow>
            (let st1 = st\<lparr>index := Some ix\<rparr>
             in case fs (meta_path st) of
                  Some (MetaFile md) \<Rightarrow> (Inr True, st1\<lparr>metadata := md\<rparr>)
                | _ \<Rightarrow> (Inl (ExternalError ''json.loads''), st1))
        | _ \<Rightarrow> (Inl (ExternalError ''faiss.read_index''), st))"

text \<open>\<^verbatim>\<open>FaissVectorStore.clear\<close>.\<close>

definition clear :: "FaissVectorStore \<times> filesystem \<Rightarrow> FaissVectorStore \<times> filesystem" where
  "clear s =
     (case s of (st, fs) \<Rightarrow>
        let st' = st\<lparr>index := None, metadata := []\<rparr>;
            fs1 = (if fs (index_path st') \<noteq> None then fs(index_path st' := None) else fs);
            fs2 = (if fs1 (meta_path st') \<noteq> None then fs1(meta_path st' := None) else fs1)
        in (st', fs2))"

text \<open>A sequence of \<^verbatim>\<open>add\<close> calls, each on the store the previous one left.\<close>

fun adds :: "FaissVectorStore \<Rightarrow> (ndarray \<times> Chunk list) list \<Rightarrow> FaissVectorStore" where
  "adds st [] = st"
| "adds st ((e, cs) # calls) = adds (snd (add st e cs)) calls"

text \<open>
  The invariant of the data model: the store holds one metadata entry per stored vector,
  and none while it has no index.
\<close>

definition aligned :: "FaissVectorStore \<Rightarrow> bool" where
  "aligned st =
     (case index st of
        None \<Rightarrow> metadata st = []
      | Some ix \<Rightarrow> length (metadata st) = ntotal ix)"

section \<open>Retriever (core/retriever.py)\<close>

record RetrievedChunk =
  rtext :: string
  rsource_file :: string
  score :: real

text \<open>
  \<^verbatim>\<open>Retriever.retrieve\<close>. The embedder is the external capability \<open>encode\<close>, which may
  fail. \<^verbatim>\<open>top_k or settings.retriever_top_k\<close> takes the default when \<^verbatim>\<open>top_k\<close> is
  \<^verbatim>\<open>None\<close> or \<open>0\<close>. \<^verbatim>\<open>sorted(..., reverse=True)\<close> is stable: items of equal score keep
  their order.
\<close>

definition retrieve ::
  "tie_break \<Rightarrow> Settings \<Rightarrow> (string list \<Rightarrow> error + ndarray) \<Rightarrow> FaissVectorStore \<Rightarrow> string \<Rightarrow> int option
     \<Rightarrow> error + RetrievedChunk list" where
  "retrieve tie cfg encode st query top_k =
     (let k = (case top_k of None \<Rightarrow> retriever_top_k cfg
               | Some n \<Rightarrow> if n = 0 then retriever_top_k cfg else n)
      in case encode [query] of
           Inl e \<Rightarrow> Inl e
         | Inr query_vector \<Rightarrow>
             (case search tie st query_vector k of
                Inl e \<Rightarrow> Inl e
              | Inr raw_results \<Rightarrow>
                  let filtered =
                        map (\<lambda>(item, sc). \<lparr>rtext = chunk_text item, rsource_file = source_file item,
                                            score = sc\<rparr>)
                          (filter (\<lambda>(item, sc). sc \<ge> retriever_score_threshold cfg) raw_results)
                  in Inr (sort_key (\<lambda>x. - score x) filtered)))"

section \<open>Answer composition (core/rag_pipeline.py)\<close>

record Citation =
  cit_rank :: nat
  cit_source :: string
  cit_score :: real

text \<open>\<^verbatim>\<open>sep.join(parts)\<close>.\<close>

fun join :: "string \<Rightarrow> string list \<Rightarrow> string" where
  "join sep [] = []"
| "join sep [x] = x"
| "join sep (x # y # ys) = x @ sep @ join sep (y # ys)"

definition insufficient_message :: string where
  "insufficient_message =
     ''I could not find sufficiently relevant information in the indexed documents.''"

definition build_prompt :: "string \<Rightarrow> string \<Rightarrow> string" where
  "build_prompt question context =
     ''Use the context below to answer the question. ''
     @ ''Only state information that appears in the context. ''
     @ ''If the context is insufficient, say so explicitly.'' @ [CHR 0x0A, CHR 0x0A]
     @ ''Question: '' @ question @ [CHR 0x0A, CHR 0x0A]
     @ ''Context:'' @ [CHR 0x0A] @ context @ [CHR 0x0A, CHR 0x0A]
     @ ''Answer with a concise explanation and include references in [n] format.''"

text \<open>
  \<^verbatim>\<open>RAGPipeline.answer\<close>, over the outcome of \<^verbatim>\<open>self.retriever.retrieve(question)\<close>.
  \<open>generate\<close> is the external generation capability; \<open>fmt3\<close> is the float format
  \<^verbatim>\<open>:.3f\<close> and \<open>round4\<close> is \<^verbatim>\<open>round(x, 4)\<close>, both built-ins of Python on floats.
\<close>

definition compose ::
  "(string \<Rightarrow> error + string) \<Rightarrow> (real \<Rightarrow> string) \<Rightarrow> (real \<Rightarrow> real) \<Rightarrow> string
     \<Rightarrow> RetrievedChunk list \<Rightarrow> error + (string \<times> Citation list)" where
  "compose generate fmt3 round4 question retrieved =
     (if retrieved = [] then Inr (insufficient_message, [])
      else
        let numbered = zip [1..<Suc (length retrieved)] retrieved;
            context_parts =
              map (\<lambda>(idx, item).
                     ''['' @ str_nat idx @ ''] Source: '' @ rsource_file item
                     @ '' | Relevance: '' @ fmt3 (score item) @ [CHR 0x0A] @ rtext item)
                numbered;
            citations =
              map (\<lambda>(idx, item).
                     \<lparr>cit_rank = idx, cit_source = rsource_file item,
                      cit_score = round4 (score item)\<rparr>)
                numbered;
            context = join [CHR 0x0A, CHR 0x0A] context_parts;
            prompt = build_prompt question context
        in case generate prompt of
             Inl e \<Rightarrow> Inl e
           | Inr answer \<Rightarrow> Inr (answer, citations))"

definition answer ::
  "tie_break \<Rightarrow> Settings \<Rightarrow> (string list \<Rightarrow> error + ndarray) \<Rightarrow> (string \<Rightarrow> error + string)
     \<Rightarrow> (real \<Rightarrow> string) \<Rightarrow> (real \<Rightarrow> real) \<Rightarrow> FaissVectorStore \<Rightarrow> string
     \<Rightarrow> error + (string \<times> Citation list)" where
  "answer tie cfg encode generate fmt3 round4 st question =
     (case retrieve tie cfg encode st question None of
        Inl e \<Rightarrow> Inl e
      | Inr retrieved \<Rightarrow> compose generate fmt3 round4 question retrieved)"

section \<open>Cleaner (core/cleaner.py, utils/helpers.py)\<close>

text \<open>The class of U+200B to U+200F and U+FEFF: zero-width characters and the byte order mark.\<close>

definition zero_width :: "char \<Rightarrow> bool" where
  "zero_width c = ((8203 \<le> (of_char c :: nat) \<and> (of_char c :: nat) \<le> 8207) \<or> (of_char c :: nat) = 65279)"

text \<open>
  \<^verbatim>\<open>re.sub(r"\n{3,}", "\n\n", text)\<close>: \<open>n\<close> counts the line feeds of the run being read;
  a run of three or more becomes two.
\<close>

definition emit_newlines :: "nat \<Rightarrow> string" where
  "emit_newlines n = (if n \<ge> 3 then [CHR 0x0A, CHR 0x0A] else replicate n (CHR 0x0A))"

fun sub_newlines :: "nat \<Rightarrow> string \<Rightarrow> string" where
  "sub_newlines n [] = emit_newlines n"
| "sub_newlines n (c # cs) =
     (if c = CHR 0x0A then sub_newlines (Suc n) cs
      else emit_newlines n @ c # sub_newlines 0 cs)"

text \<open>
  \<^verbatim>\<open>re.sub(r"\s+", " ", text)\<close>: every maximal run of whitespace becomes one space;
  \<open>in_run\<close> says that the previous character was whitespace.
\<close>

fun sub_whitespace :: "bool \<Rightarrow> string \<Rightarrow> string" where
  "sub_whitespace in_run [] = []"
| "sub_whitespace in_run (c # cs) =
     (if isspace c then (if in_run then sub_whitespace True cs else CHR '' '' # sub_whitespace True cs)
      else c # sub_whitespace False cs)"

definition normalize_whitespace :: "string \<Rightarrow> string" where
  "normalize_whitespace txt = strip (sub_whitespace False txt)"

definition clean :: "string \<Rightarrow> string" where
  "clean txt =
     (let t1 = map (\<lambda>c. if c = CHR 0x00 then CHR '' '' else c) txt;
          t2 = filter (\<lambda>c. \<not> zero_width c) t1;
          t3 = sub_newlines 0 t2
      in normalize_whitespace t3)"

section \<open>Ingestion (services/ingestion_service.py)\<close>

record IngestionResult =
  file_name :: string
  chunks_indexed :: nat

text \<open>\<^verbatim>\<open>Path.name\<close>: the last component of a path.\<close>

definition path_name :: "string \<Rightarrow> string" where
  "path_name p = rev (takeWhile (\<lambda>c. c \<noteq> CHR ''/'') (rev p))"

text \<open>
  \<^verbatim>\<open>IngestionService.ingest_path\<close>: the outcome, and the store and the disk after the
  call. \<open>load_text\<close> (text extraction) and \<open>encode\<close> (embedding) are external
  capabilities, which may fail.
\<close>

definition ingest_path ::
  "(string \<Rightarrow> error + string) \<Rightarrow> (string list \<Rightarrow> error + ndarray) \<Rightarrow> TextChunker
     \<Rightarrow> FaissVectorStore \<times> filesystem \<Rightarrow> string
     \<Rightarrow> (error + IngestionResult) \<times> (FaissVectorStore \<times> filesystem)" where
  "ingest_path load_text encode chunker s file_path =
     (case s of (st, fs) \<Rightarrow>
        (case load_text file_path of
           Inl e \<Rightarrow> (Inl e, s)
         | Inr raw_text \<Rightarrow>
             let cleaned_text = clean raw_text
             in case chunk_document chunker cleaned_text (path_name file_path) of
                  Inl e \<Rightarrow> (Inl e, s)
                | Inr chunks \<Rightarrow>
                    if chunks = []
                    then (Inl (ValueError (''No text chunks generated for '' @ path_name file_path)), s)
                    else
                      (case encode (map chunk_text chunks) of
                         Inl e \<Rightarrow> (Inl e, s)
                       | Inr embeddings \<Rightarrow>
                           (case add st embeddings chunks of
                              (Inl e, st') \<Rightarrow> (Inl e, (st', fs))
                            | (Inr u, st') \<Rightarrow>
                                (Inr \<lparr>file_name = path_name file_path,
                                      chunks_indexed = length chunks\<rparr>,
                                 save (st', fs))))))"

section \<open>Example inputs\<close>

text \<open>A text of 2000 characters, none of them whitespace.\<close>

definition example_text :: string where
  "example_text = replicate 2000 (CHR ''a'')"

text \<open>Settings with the defaults of config.py.\<close>

definition example_settings :: Settings where
  "example_settings =
     \<lparr>index_dir = ''./data/indexes'', default_index_name = ''default_index'',
      retriever_top_k = 5, retriever_score_threshold = 3 / 10\<rparr>"

definition example_chunk :: "nat \<Rightarrow> Chunk" where
  "example_chunk n =
     \<lparr>chunk_id = ''doc-'' @ str_nat n, chunk_text = ''text '' @ str_nat n, source_file = ''doc'',
      start_char = 0, end_char = 6\<rparr>"

text \<open>A store after one \<^verbatim>\<open>add\<close> of three unit vectors of width 2; the first and the third are equal.\<close>

definition example_store :: FaissVectorStore where
  "example_store =
     snd (add (FaissVectorStore_init example_settings None)
            (Arr2 2 [[1, 0], [0, 1], [1, 0]])
            [example_chunk 0, example_chunk 1, example_chunk 2])"

text \<open>A tie order for the examples: among equal scores, the later position first.\<close>

definition example_tie :: tie_break where
  "example_tie ix q k i = ntotal ix - i"

text \<open>An embedder that maps every text to the same unit vector of width 2.\<close>

definition example_encode :: "string list \<Rightarrow> error + ndarray" where
  "example_encode texts = Inr (Arr2 2 (map (\<lambda>t. [1, 0]) texts))"

text \<open>A disk that holds the two artifacts of an earlier session under the default index name.\<close>

definition stale_disk :: filesystem where
  "stale_disk =
     [''./data/indexes/default_index.faiss'' \<mapsto> IndexFile \<lparr>index_d = 2, index_xb = [[1, 0]]\<rparr>,
      ''./data/indexes/default_index.json'' \<mapsto> MetaFile [example_chunk 0]]"

section \<open>Properties of the chunker\<close>

text \<open>
  C6. Constructing a \<open>TextChunker\<close> fails (with the \<^verbatim>\<open>ValueError\<close> that is the
  specification's ConfigurationError) if and only if \<open>overlap \<ge> chunk_size\<close>; it
  fails when the two are equal, and succeeds, keeping both values, when the overlap is
  strictly smaller.
\<close>

theorem TextChunker_init_fails_iff:
  "(TextChunker_init cs ov = Inl (ValueError ''chunk_overlap must be smaller than chunk_size''))
     = (ov \<ge> cs)
   \<and> isl (TextChunker_init cs ov) = (ov \<ge> cs)
   \<and> isl (TextChunker_init cs cs)
   \<and> (TextChunker_init cs ov = Inr \<lparr>chunk_size = cs, overlap = ov\<rparr>) = (ov < cs)"
  by (auto simp: TextChunker_init_def)

subsection \<open>The windows of a 2000-character text\<close>

lemma strip_eq_Nil_iff: "(strip s = []) = (\<forall>c\<in>set s. isspace c)"
proof -
  have "(strip s = []) = (dropWhile isspace s = [])"
    unfolding strip_def
    by (metis dropWhile_eq_Nil_conv hd_dropWhile list.set_sel(1) rev_is_Nil_conv set_rev dropWhile.simps(1) rev.simps(1))
  then show ?thesis by (simp add: dropWhile_eq_Nil_conv)
qed

lemma str_nat_digits:
  "str_nat 0 = ''0''" "str_nat (Suc 0) = ''1''" "str_nat 2 = ''2''" "str_nat 3 = ''3''"
  by (simp_all add: str_nat.simps)

lemma chunk_loop_emit:
  assumes "0 < step" "start < int (length txt)"
    and "\<not> (\<forall>c\<in>set (pyslice txt start (min (start + csize) (int (length txt)))). isspace c)"
  shows "chunk_loop csize step txt src start idx =
     \<lparr>chunk_id = src @ ''-'' @ str_nat idx,
      chunk_text = strip (pyslice txt start (min (start + csize) (int (length txt)))),
      source_file = src, start_char = start,
      end_char = min (start + csize) (int (length txt))\<rparr>
     # (if min (start + csize) (int (length txt)) = int (length txt) then []
        else chunk_loop csize step txt src (start + step) (Suc idx))"
proof -
  have ne: "strip (pyslice txt start (min (start + csize) (int (length txt)))) \<noteq> []"
    using assms(3) by (simp only: strip_eq_Nil_iff not_False_eq_True)
  show ?thesis
    by (subst chunk_loop.simps) (use assms(1,2) ne in \<open>auto simp: Let_def\<close>)
qed

lemma pyslice_replicate:
  "0 \<le> a \<Longrightarrow> a \<le> b \<Longrightarrow> b \<le> int n \<Longrightarrow> pyslice (replicate n x) a b = replicate (nat (b - a)) x"
proof -
  assume h: "0 \<le> a" "a \<le> b" "b \<le> int n"
  then have "nat b - nat a \<le> n - nat a" "nat b - nat a = nat (b - a)" by linarith+
  with h show ?thesis
    by (simp add: pyslice_def slice_bound_def Let_def min_def)
qed

text \<open>
  C2. A text of 2000 characters in which none of the four windows the chunker reads is
  all whitespace, chunked with \<open>chunk_size = 700\<close>, \<open>overlap = 120\<close> and source file
  \<open>doc\<close>, gives exactly four chunks: they start at 0, 580, 1160 and 1740, the last one
  is clipped to end at 2000, and their ids are \<open>doc-0\<close> to \<open>doc-3\<close>.
\<close>

theorem chunk_document_2000:
  assumes len: "length txt = 2000"
    and windows: "\<forall>start\<in>{0, 580, 1160, 1740}.
        \<not> (\<forall>c\<in>set (pyslice txt start (min (start + 700) 2000)). isspace c)"
  shows "\<exists>c cs. TextChunker_init 700 120 = Inr c
           \<and> chunk_document c txt ''doc'' = Inr cs
           \<and> length cs = 4
           \<and> map start_char cs = [0, 580, 1160, 1740]
           \<and> map end_char cs = [700, 1280, 1860, 2000]
           \<and> map chunk_id cs = [''doc-0'', ''doc-1'', ''doc-2'', ''doc-3'']"
proof -
  have w0: "\<not> (\<forall>c\<in>set (pyslice txt 0 (min (0 + 700) (int (length txt)))). isspace c)"
    and w1: "\<not> (\<forall>c\<in>set (pyslice txt 580 (min (580 + 700) (int (length txt)))). isspace c)"
    and w2: "\<not> (\<forall>c\<in>set (pyslice txt 1160 (min (1160 + 700) (int (length txt)))). isspace c)"
    and w3: "\<not> (\<forall>c\<in>set (pyslice txt 1740 (min (1740 + 700) (int (length txt)))). isspace c)"
    using windows len by simp_all
  have s2: "Suc (Suc 0) = 2" by simp
  have l3: "chunk_loop 700 580 txt ''doc'' 1740 3 =
      [\<lparr>chunk_id = ''doc-3'', chunk_text = strip (pyslice txt 1740 2000), source_file = ''doc'',
        start_char = 1740, end_char = 2000\<rparr>]"
    using chunk_loop_emit [of 580 1740 "txt" 700 "''doc''" 3, OF _ _ w3] len
    by (simp add: str_nat_digits del: One_nat_def)
  have l2: "chunk_loop 700 580 txt ''doc'' 1160 2 =
      \<lparr>chunk_id = ''doc-2'', chunk_text = strip (pyslice txt 1160 1860), source_file = ''doc'',
        start_char = 1160, end_char = 1860\<rparr> # chunk_loop 700 580 txt ''doc'' 1740 3"
    using chunk_loop_emit [of 580 1160 "txt" 700 "''doc''" 2, OF _ _ w2] len
    by (simp add: str_nat_digits del: One_nat_def)
  have l1: "chunk_loop 700 580 txt ''doc'' 580 (Suc 0) =
      \<lparr>chunk_id = ''doc-1'', chunk_text = strip (pyslice txt 580 1280), source_file = ''doc'',
        start_char = 580, end_char = 1280\<rparr> # chunk_loop 700 580 txt ''doc'' 1160 2"
    using chunk_loop_emit [of 580 580 "txt" 700 "''doc''" "Suc 0", OF _ _ w1] len
    by (simp add: str_nat_digits s2)
  have l0: "chunk_loop 700 580 txt ''doc'' 0 0 =
      \<lparr>chunk_id = ''doc-0'', chunk_text = strip (pyslice txt 0 700), source_file = ''doc'',
        start_char = 0, end_char = 700\<rparr> # chunk_loop 700 580 txt ''doc'' 580 (Suc 0)"
    using chunk_loop_emit [of 580 0 "txt" 700 "''doc''" 0, OF _ _ w0] len
    by (simp add: str_nat_digits)
  show ?thesis
    by (simp add: TextChunker_init_def chunk_document_def l0 l1 l2 l3 del: One_nat_def)
qed

theorem chunk_document_2000_witness:
  "\<exists>c cs. TextChunker_init 700 120 = Inr c
           \<and> chunk_document c example_text ''doc'' = Inr cs
           \<and> length cs = 4
           \<and> map start_char cs = [0, 580, 1160, 1740]
           \<and> map end_char cs = [700, 1280, 1860, 2000]
           \<and> map chunk_id cs = [''doc-0'', ''doc-1'', ''doc-2'', ''doc-3'']"
proof -
  have len: "length example_text = 2000"
    by (simp only: example_text_def length_replicate)
  have sl: "pyslice example_text a b = replicate (nat (b - a)) (CHR ''a'')"
    if "0 \<le> a" "a \<le> b" "b \<le> 2000" for a b
    unfolding example_text_def using that by (intro pyslice_replicate) simp_all
  have a: "\<not> isspace (CHR ''a'')" by (simp add: isspace_def)
  have windows: "\<forall>start\<in>{0, 580, 1160, 1740}.
        \<not> (\<forall>c\<in>set (pyslice example_text start (min (start + 700) 2000)). isspace c)"
    using a by (simp add: sl)
  show ?thesis by (rule chunk_document_2000 [OF len windows])
qed

section \<open>Properties of the vector store\<close>

subsection \<open>The example store\<close>

lemma example_store_eq:
  "example_store =
     \<lparr>index_name = ''default_index'',
      index_path = ''./data/indexes/default_index.faiss'',
      meta_path = ''./data/indexes/default_index.json'',
      index = Some \<lparr>index_d = 2, index_xb = [[1, 0], [0, 1], [1, 0]]\<rparr>,
      metadata = [example_chunk 0, example_chunk 1, example_chunk 2]\<rparr>"
  by (simp add: example_store_def add_def FaissVectorStore_init_def example_settings_def
      IndexFlatIP_new_def Let_def)

lemma example_store_adds:
  "example_store = adds (FaissVectorStore_init example_settings None)
     [(Arr2 2 [[1, 0], [0, 1], [1, 0]], [example_chunk 0, example_chunk 1, example_chunk 2])]"
  by (simp add: example_store_def)

lemma fresh_store_eq:
  "FaissVectorStore_init example_settings None =
     \<lparr>index_name = ''default_index'',
      index_path = ''./data/indexes/default_index.faiss'',
      meta_path = ''./data/indexes/default_index.json'',
      index = None, metadata = []\<rparr>"
  by (simp add: FaissVectorStore_init_def example_settings_def Let_def)

subsection \<open>Adding\<close>

text \<open>
  C4. \<open>add\<close> fails with the \<^verbatim>\<open>ValueError\<close> for a length mismatch (the specification's
  ShapeMismatchError) whenever the number of chunks differs from the number of vectors,
  and then leaves the store unchanged. The first successful \<open>add\<close> creates the index with
  the width of the incoming vectors; a later \<open>add\<close> of that width appends and keeps the
  width; every later \<open>add\<close> of another width fails and leaves the store unchanged: with
  the length error when the counts differ too, and otherwise with the \<^verbatim>\<open>AssertionError\<close>
  of the index (the specification's DimensionMismatchError).
\<close>

theorem add_shape_and_dimension:
  "(length chunks \<noteq> len_arr e \<longrightarrow>
      add st e chunks = (Inl (ValueError ''Embeddings/chunks length mismatch''), st))
   \<and> (index st = None \<and> length chunks = length rows \<longrightarrow>
      add st (Arr2 c rows) chunks =
        (Inr (), st\<lparr>index := Some \<lparr>index_d = c, index_xb = rows\<rparr>,
                     metadata := metadata st @ chunks\<rparr>))
   \<and> (index st = Some ix \<and> c = index_d ix \<and> length chunks = length rows \<longrightarrow>
      add st (Arr2 c rows) chunks =
        (Inr (), st\<lparr>index := Some (ix\<lparr>index_xb := index_xb ix @ rows\<rparr>),
                     metadata := metadata st @ chunks\<rparr>))
   \<and> (index st = Some ix \<and> c \<noteq> index_d ix \<longrightarrow>
      add st (Arr2 c rows) chunks =
        (Inl (if length chunks \<noteq> length rows
              then ValueError ''Embeddings/chunks length mismatch'' else AssertionError), st))"
  by (cases st) (simp add: add_def IndexFlatIP_new_def Let_def)

theorem add_shape_and_dimension_witness:
  "add example_store (Arr2 2 [[0, 1]]) [] =
     (Inl (ValueError ''Embeddings/chunks length mismatch''), example_store)
   \<and> add (FaissVectorStore_init example_settings None) (Arr2 3 [[0, 0, 1]]) [example_chunk 0] =
       (Inr (), (FaissVectorStore_init example_settings None)
                  \<lparr>index := Some \<lparr>index_d = 3, index_xb = [[0, 0, 1]]\<rparr>,
                   metadata := metadata (FaissVectorStore_init example_settings None)
                               @ [example_chunk 0]\<rparr>)
   \<and> add example_store (Arr2 2 [[0, 1]]) [example_chunk 3] =
       (Inr (), example_store
                  \<lparr>index := Some (\<lparr>index_d = 2, index_xb = [[1, 0], [0, 1], [1, 0]]\<rparr>
                                    \<lparr>index_xb := index_xb \<lparr>index_d = 2, index_xb = [[1, 0], [0, 1], [1, 0]]\<rparr>
                                                 @ [[0, 1]]\<rparr>),
                   metadata := metadata example_store @ [example_chunk 3]\<rparr>)
   \<and> add example_store (Arr2 3 [[0, 0, 1]]) [example_chunk 3] =
       (Inl (if length [example_chunk 3] \<noteq> length [[0, 0, 1 :: real]]
             then ValueError ''Embeddings/chunks length mismatch'' else AssertionError),
        example_store)"
proof (intro conjI)
  show "add example_store (Arr2 2 [[0, 1]]) [] =
     (Inl (ValueError ''Embeddings/chunks length mismatch''), example_store)"
    by (rule add_shape_and_dimension [THEN conjunct1, THEN mp]) simp
  show "add (FaissVectorStore_init example_settings None) (Arr2 3 [[0, 0, 1]]) [example_chunk 0] =
       (Inr (), (FaissVectorStore_init example_settings None)
                  \<lparr>index := Some \<lparr>index_d = 3, index_xb = [[0, 0, 1]]\<rparr>,
                   metadata := metadata (FaissVectorStore_init example_settings None)
                               @ [example_chunk 0]\<rparr>)"
    by (rule add_shape_and_dimension [THEN conjunct2, THEN conjunct1, THEN mp])
       (simp add: FaissVectorStore_init_def Let_def)
  show "add example_store (Arr2 2 [[0, 1]]) [example_chunk 3] =
       (Inr (), example_store
                  \<lparr>index := Some (\<lparr>index_d = 2, index_xb = [[1, 0], [0, 1], [1, 0]]\<rparr>
                                    \<lparr>index_xb := index_xb \<lparr>index_d = 2, index_xb = [[1, 0], [0, 1], [1, 0]]\<rparr>
                                                 @ [[0, 1]]\<rparr>),
                   metadata := metadata example_store @ [example_chunk 3]\<rparr>)"
    by (rule add_shape_and_dimension [THEN conjunct2, THEN conjunct2, THEN conjunct1, THEN mp])
       (simp add: example_store_eq)
  show "add example_store (Arr2 3 [[0, 0, 1]]) [example_chunk 3] =
       (Inl (if length [example_chunk 3] \<noteq> length [[0, 0, 1 :: real]]
             then ValueError ''Embeddings/chunks length mismatch'' else AssertionError),
        example_store)"
    by (rule add_shape_and_dimension
          [where ix = "\<lparr>index_d = 2, index_xb = [[1, 0], [0, 1], [1, 0]]\<rparr>",
           THEN conjunct2, THEN conjunct2, THEN conjunct2, THEN mp])
       (simp add: example_store_eq)
qed

subsection \<open>Clearing\<close>

text \<open>
  C7. From any store and any disk, \<open>clear\<close> leaves no index and no metadata in memory
  and neither artifact on disk; a second \<open>clear\<close> right after it changes nothing, and
  \<open>clear\<close> on a fresh store over an empty disk changes nothing. The model of \<open>clear\<close>
  has no error outcome.
\<close>

theorem clear_idempotent:
  "clear (clear (st, fs)) = clear (st, fs)
   \<and> index (fst (clear (st, fs))) = None
   \<and> metadata (fst (clear (st, fs))) = []
   \<and> snd (clear (st, fs)) (index_path st) = None
   \<and> snd (clear (st, fs)) (meta_path st) = None
   \<and> clear (FaissVectorStore_init cfg nm, Map.empty) = (FaissVectorStore_init cfg nm, Map.empty)"
  by (simp add: clear_def Let_def FaissVectorStore_init_def)


subsection \<open>Saving and loading\<close>

lemma add_keeps_paths:
  "index_name (snd (add st e cs)) = index_name st
   \<and> index_path (snd (add st e cs)) = index_path st
   \<and> meta_path (snd (add st e cs)) = meta_path st"
  by (simp add: add_def Let_def split: sum.splits)

lemma adds_keeps_paths:
  "index_name (adds st calls) = index_name st
   \<and> index_path (adds st calls) = index_path st
   \<and> meta_path (adds st calls) = meta_path st"
  by (induction st calls rule: adds.induct) (simp_all add: add_keeps_paths)

lemma search_cong_state:
  "index a = index b \<Longrightarrow> metadata a = metadata b \<Longrightarrow> search tie a q k = search tie b q k"
  by (simp add: search_def split: option.split sum.split prod.split list.split)

lemma init_paths_differ:
  "index_path (FaissVectorStore_init cfg nm) \<noteq> meta_path (FaissVectorStore_init cfg nm)"
  by (simp add: FaissVectorStore_init_def Let_def)

text \<open>
  C1, as amended. Let \<open>st\<close> be reached from a fresh store by any sequence of \<open>add\<close>
  calls, and suppose that an index exists in \<open>st\<close> (some \<open>add\<close> succeeded) or that
  one of the two artifacts of that index name is absent from the disk. Then \<open>save\<close>
  followed by \<open>load\<close> on a fresh store of the same settings and name gives a store
  whose \<open>search\<close> result equals that of \<open>st\<close> for every query and every \<open>top_k\<close>,
  whatever the tie order of the index library is;
  when an index exists, \<open>load\<close> returns \<open>True\<close> and restores exactly the index and the
  metadata of \<open>st\<close>.
\<close>

theorem save_load_round_trip:
  assumes reach: "st = adds (FaissVectorStore_init cfg nm) calls"
    and saved: "index st \<noteq> None \<or> fs (index_path st) = None \<or> fs (meta_path st) = None"
  shows "fst (save (st, fs)) = st
     \<and> search tie (snd (load (FaissVectorStore_init cfg nm) (snd (save (st, fs))))) q k = search tie st q k
     \<and> (index st \<noteq> None \<longrightarrow>
          load (FaissVectorStore_init cfg nm) (snd (save (st, fs))) =
            (Inr True, (FaissVectorStore_init cfg nm)\<lparr>index := index st, metadata := metadata st\<rparr>))"
proof -
  let ?fresh = "FaissVectorStore_init cfg nm"
  have ip: "index_path st = index_path ?fresh" and mp: "meta_path st = meta_path ?fresh"
    using reach adds_keeps_paths by simp_all
  have ne: "index_path ?fresh \<noteq> meta_path ?fresh" by (rule init_paths_differ)
  have fresh: "index ?fresh = None" by (simp add: FaissVectorStore_init_def Let_def)
  show ?thesis
  proof (cases "index st")
    case None
    then have sv: "save (st, fs) = (st, fs)" by (simp add: save_def)
    from None saved have "fs (index_path ?fresh) = None \<or> fs (meta_path ?fresh) = None"
      by (simp add: ip mp)
    then have "load ?fresh fs = (Inr False, ?fresh)" by (auto simp: load_def)
    with None sv fresh show ?thesis by (simp add: search_def)
  next
    case (Some ix)
    then have sv: "save (st, fs) =
        (st, (fs(index_path ?fresh \<mapsto> IndexFile ix))(meta_path ?fresh \<mapsto> MetaFile (metadata st)))"
      by (simp add: save_def ip mp)
    have ld: "load ?fresh (snd (save (st, fs))) =
        (Inr True, ?fresh\<lparr>index := Some ix, metadata := metadata st\<rparr>)"
      using ne by (simp add: sv load_def Let_def)
    have "search tie (?fresh\<lparr>index := Some ix, metadata := metadata st\<rparr>) q k = search tie st q k"
      by (rule search_cong_state) (simp_all add: Some)
    with ld sv Some show ?thesis by simp
  qed
qed

theorem save_load_round_trip_witness:
  "fst (save (example_store, stale_disk)) = example_store
   \<and> search example_tie (snd (load (FaissVectorStore_init example_settings None)
                 (snd (save (example_store, stale_disk))))) (Arr1 [1, 0]) 2
       = search example_tie example_store (Arr1 [1, 0]) 2
   \<and> load (FaissVectorStore_init example_settings None) (snd (save (example_store, stale_disk))) =
       (Inr True, (FaissVectorStore_init example_settings None)
                    \<lparr>index := index example_store, metadata := metadata example_store\<rparr>)
   \<and> search example_tie (snd (load (FaissVectorStore_init example_settings None)
                 (snd (save (adds (FaissVectorStore_init example_settings None) [], Map.empty)))))
         (Arr1 [1, 0]) 2
       = search example_tie (adds (FaissVectorStore_init example_settings None) []) (Arr1 [1, 0]) 2"
proof -
  have i: "index example_store \<noteq> None" by (simp add: example_store_eq)
  then have "index example_store \<noteq> None \<or> stale_disk (index_path example_store) = None
      \<or> stale_disk (meta_path example_store) = None" by simp
  note stored = save_load_round_trip
      [OF example_store_adds this, where tie = example_tie and q = "Arr1 [1, 0]" and k = 2]
  let ?fresh = "adds (FaissVectorStore_init example_settings None) []"
  have "index ?fresh \<noteq> None \<or> Map.empty (index_path ?fresh) = None
      \<or> Map.empty (meta_path ?fresh) = None" by simp
  note untouched = save_load_round_trip
      [OF refl this, where tie = example_tie and q = "Arr1 [1, 0]" and k = 2]
  from stored untouched i show ?thesis by blast
qed

text \<open>
  C1 as stated fails for the store no \<open>add\<close> has touched when the disk still holds the
  artifacts of an earlier session: \<open>save\<close> writes nothing, the fresh \<open>load\<close> reads the
  old artifacts, and \<open>search\<close> then finds an entry that the store before \<open>save\<close> did
  not have.
\<close>

theorem save_load_stale_counterexample:
  "search example_tie (snd (load (FaissVectorStore_init example_settings None)
             (snd (save (adds (FaissVectorStore_init example_settings None) [], stale_disk)))))
      (Arr1 [1, 0]) 1 = Inr [(example_chunk 0, 1)]
   \<and> search example_tie (adds (FaissVectorStore_init example_settings None) []) (Arr1 [1, 0]) 1 = Inr []"
  by (simp add: fresh_store_eq save_def load_def stale_disk_def search_def ntotal_def
      search_row_def ranked_def inner_product_def py_get_def Let_def)


subsection \<open>Searching\<close>

text \<open>Every store reached from a fresh one by \<open>add\<close> calls satisfies the invariant.\<close>

lemma add_aligned: "aligned st \<Longrightarrow> aligned (snd (add st e cs))"
  by (cases e)
     (auto simp: aligned_def add_def ntotal_def IndexFlatIP_new_def Let_def split: option.splits)

lemma adds_aligned: "aligned st \<Longrightarrow> aligned (adds st calls)"
  by (induction st calls rule: adds.induct) (simp_all add: add_aligned)

lemma reachable_aligned: "aligned (adds (FaissVectorStore_init cfg nm) calls)"
  by (rule adds_aligned) (simp add: aligned_def FaissVectorStore_init_def Let_def)

lemma decode_sentinels: "decode md (replicate p (- 1, y)) = Inr []"
  by (induction p) simp_all

lemma decode_positions:
  "\<forall>(i, s)\<in>set xs. i < length md \<Longrightarrow>
   decode md (map (\<lambda>(i, s). (int i, s)) xs @ replicate p (- 1, y)) = Inr (map (\<lambda>(i, s). (md ! i, s)) xs)"
  by (induction xs) (auto simp: decode_sentinels py_get_def)

lemma zip_search_row:
  "zip (map (\<lambda>(i, s). int i) xs @ replicate p (- 1)) (map snd xs @ replicate p y)
     = map (\<lambda>(i, s). (int i, s)) xs @ replicate p (- 1, y)"
  by (induction xs) (auto simp: zip_replicate)

lemma set_ranked:
  "set (ranked tie ix k q) = {(i, inner_product q (index_xb ix ! i)) | i. i < ntotal ix}"
proof -
  have "zip [0..<length xs] (map f xs) = map (\<lambda>i. (i, f (xs ! i))) [0..<length xs]"
    for f :: "real list \<Rightarrow> real" and xs
    by (intro nth_equalityI) simp_all
  then show ?thesis by (auto simp: ranked_def ntotal_def)
qed

lemma length_ranked: "length (ranked tie ix k q) = ntotal ix"
  by (simp add: ranked_def ntotal_def)

lemma distinct_ranked: "distinct (map fst (ranked tie ix k q))"
proof -
  let ?scored = "zip [0..<ntotal ix] (map (inner_product q) (index_xb ix))"
  have "map fst ?scored = [0..<ntotal ix]" by (simp add: ntotal_def)
  then have "distinct (map fst ?scored)" by simp
  then have "distinct ?scored" "inj_on fst (set ?scored)" by (simp_all add: distinct_map)
  then show ?thesis unfolding ranked_def by (simp add: distinct_map)
qed

lemma sorted_ranked: "sorted_wrt (\<lambda>a b. snd a \<ge> snd b) (ranked tie ix k q)"
proof -
  have "sorted (map (\<lambda>(i, s). - s) (ranked tie ix k q))"
    unfolding ranked_def by (rule sorted_sort_key)
  then show ?thesis
    by (simp add: sorted_map sorted_wrt_iff_nth_less case_prod_unfold)
qed

lemma search_row_ranked:
  "search_row tie ix k q =
     (map snd (take k (ranked tie ix k q))
        @ replicate (k - length (take k (ranked tie ix k q))) neg_flt_max,
      map (\<lambda>(i, s). int i) (take k (ranked tie ix k q))
        @ replicate (k - length (take k (ranked tie ix k q))) (- 1))"
  by (simp add: search_row_def Let_def)

lemma search_ranked:
  assumes ix: "index st = Some ix" and ne: "ntotal ix \<noteq> 0"
    and md: "length (metadata st) = ntotal ix"
    and wd: "length v = index_d ix" and k: "0 < k"
  shows "search tie st (Arr1 v) k
           = Inr (map (\<lambda>(i, s). (metadata st ! i, s)) (take (nat k) (ranked tie ix (nat k) v)))"
    and "search tie st (Arr2 (length v) [v]) k = search tie st (Arr1 v) k"
proof -
  have "\<forall>(i, s)\<in>set (take (nat k) (ranked tie ix (nat k) v)). i < length (metadata st)"
    using set_ranked [of tie ix "nat k" v] md by (auto dest!: in_set_takeD)
  then show "search tie st (Arr1 v) k
           = Inr (map (\<lambda>(i, s). (metadata st ! i, s)) (take (nat k) (ranked tie ix (nat k) v)))"
    using ix ne wd k
    by (simp add: search_def search_row_ranked zip_search_row decode_positions del: length_take)
  show "search tie st (Arr2 (length v) [v]) k = search tie st (Arr1 v) k"
    by (cases "index st") (simp_all add: search_def)
qed

lemma snd_ranked:
  "a \<in> set (ranked tie ix k q) \<Longrightarrow>
   snd a = inner_product q (index_xb ix ! fst a) \<and> fst a < ntotal ix"
  by (auto simp: set_ranked)

lemma top_positions:
  fixes tie ix q k
  defines "pos \<equiv> map fst (take k (ranked tie ix k q))"
  shows "map (\<lambda>(i, s). (md ! i, s)) (take k (ranked tie ix k q))
           = map (\<lambda>i. (md ! i, inner_product q (index_xb ix ! i))) pos"
    and "length pos = min k (ntotal ix)"
    and "distinct pos"
    and "\<forall>i\<in>set pos. i < ntotal ix"
    and "sorted_wrt (\<lambda>i j. inner_product q (index_xb ix ! i) \<ge> inner_product q (index_xb ix ! j)) pos"
    and "\<forall>j<ntotal ix. j \<notin> set pos \<longrightarrow>
           (\<forall>i\<in>set pos. inner_product q (index_xb ix ! j) \<le> inner_product q (index_xb ix ! i))"
proof -
  let ?r = "ranked tie ix k q"
  let ?sc = "\<lambda>i. inner_product q (index_xb ix ! i)"
  have el: "snd a = ?sc (fst a) \<and> fst a < ntotal ix" if "a \<in> set (take k ?r)" for a
    using that snd_ranked in_set_takeD by fast
  show "map (\<lambda>(i, s). (md ! i, s)) (take k ?r) = map (\<lambda>i. (md ! i, ?sc i)) pos"
    unfolding pos_def using el by (auto simp: case_prod_unfold)
  show "length pos = min k (ntotal ix)"
    by (simp add: pos_def length_ranked min.commute)
  have "distinct (take k (map fst ?r))"
    by (rule distinct_take) (rule distinct_ranked)
  then show "distinct pos" by (simp add: pos_def take_map)
  show "\<forall>i\<in>set pos. i < ntotal ix"
    unfolding pos_def using el by auto
  have "sorted_wrt (\<lambda>a b. snd a \<ge> snd b) (take k ?r @ drop k ?r)"
    using sorted_ranked [of tie ix k q] by simp
  then have front: "sorted_wrt (\<lambda>a b. snd a \<ge> snd b) (take k ?r)"
    and cross: "\<forall>a\<in>set (take k ?r). \<forall>b\<in>set (drop k ?r). snd a \<ge> snd b"
    unfolding sorted_wrt_append by blast+
  from front have "sorted_wrt (\<lambda>a b. ?sc (fst a) \<ge> ?sc (fst b)) (take k ?r)"
    by (rule sorted_wrt_mono_rel [rotated]) (use el in auto)
  then show "sorted_wrt (\<lambda>i j. ?sc i \<ge> ?sc j) pos"
    by (simp add: pos_def sorted_wrt_map)
  show "\<forall>j<ntotal ix. j \<notin> set pos \<longrightarrow> (\<forall>i\<in>set pos. ?sc j \<le> ?sc i)"
  proof (intro allI impI ballI)
    fix j i assume j: "j < ntotal ix" "j \<notin> set pos" and i: "i \<in> set pos"
    from i obtain a where a: "a \<in> set (take k ?r)" "fst a = i" by (auto simp: pos_def)
    from j(1) have "(j, ?sc j) \<in> set ?r" by (auto simp: set_ranked)
    then have "(j, ?sc j) \<in> set (take k ?r) \<union> set (drop k ?r)"
      by (metis append_take_drop_id set_append)
    moreover have "(j, ?sc j) \<notin> set (take k ?r)"
      using j(2) by (force simp: pos_def)
    ultimately have "(j, ?sc j) \<in> set (drop k ?r)" by simp
    with cross a(1) have "snd a \<ge> snd (j, ?sc j)"
      by blast
    with el [OF a(1)] a(2) show "?sc j \<le> ?sc i" by simp
  qed
qed

text \<open>
  C5, as amended. Whatever the tie order of the index library is: on a store without
  index, or with an empty index, \<open>search\<close> returns the empty list for every query and
  every \<open>top_k\<close>. On a store with a non-empty index
  that has one metadata entry per stored vector (as every store reached by \<open>add\<close>
  calls has), for a query vector of the width of the
  index (given as a vector or as a one-row batch) and for \<open>top_k \<ge> 1\<close>, \<open>search\<close>
  returns the entries of a list \<open>pos\<close> of distinct stored positions: exactly
  \<open>min top_k ntotal\<close> of them, so at most \<open>top_k\<close> and without padding; each entry is
  the metadata at its position paired with the inner product of the query and the
  vector at that position; the scores descend; and no position left out has a higher
  score than one returned. No sentinel appears: every position is below \<open>ntotal\<close>.
\<close>

theorem search_results:
  "(index st = None \<or> (\<exists>ix. index st = Some ix \<and> ntotal ix = 0) \<longrightarrow> search tie st q k = Inr [])
   \<and> (index st = Some ix \<and> ntotal ix \<noteq> 0 \<and> length (metadata st) = ntotal ix
        \<and> length v = index_d ix \<and> 0 < k \<longrightarrow>
       (\<exists>pos. search tie st (Arr1 v) k
                 = Inr (map (\<lambda>i. (metadata st ! i, inner_product v (index_xb ix ! i))) pos)
          \<and> search tie st (Arr2 (length v) [v]) k = search tie st (Arr1 v) k
          \<and> length pos = min (nat k) (ntotal ix)
          \<and> length pos \<le> nat k
          \<and> distinct pos
          \<and> (\<forall>i\<in>set pos. i < ntotal ix)
          \<and> sorted_wrt (\<lambda>i j. inner_product v (index_xb ix ! i) \<ge> inner_product v (index_xb ix ! j)) pos
          \<and> (\<forall>j<ntotal ix. j \<notin> set pos \<longrightarrow>
                (\<forall>i\<in>set pos. inner_product v (index_xb ix ! j) \<le> inner_product v (index_xb ix ! i)))))"
proof (intro conjI impI)
  assume "index st = None \<or> (\<exists>ix. index st = Some ix \<and> ntotal ix = 0)"
  then show "search tie st q k = Inr []" by (auto simp: search_def)
next
  assume h: "index st = Some ix \<and> ntotal ix \<noteq> 0 \<and> length (metadata st) = ntotal ix
        \<and> length v = index_d ix \<and> 0 < k"
  let ?pos = "map fst (take (nat k) (ranked tie ix (nat k) v))"
  note tp1 = top_positions(1)
      [where md = "metadata st" and k = "nat k" and ix = ix and q = v and tie = tie]
  note tp = top_positions(2-6) [where k = "nat k" and ix = ix and q = v and tie = tie]
  have "search tie st (Arr1 v) k
          = Inr (map (\<lambda>i. (metadata st ! i, inner_product v (index_xb ix ! i))) ?pos)"
    using h search_ranked(1) [of st ix v k tie] tp1 by simp
  moreover have "search tie st (Arr2 (length v) [v]) k = search tie st (Arr1 v) k"
    using h search_ranked(2) [of st ix v k tie] by simp
  moreover have "length ?pos \<le> nat k" using tp(1) by simp
  ultimately show "\<exists>pos. search tie st (Arr1 v) k
                 = Inr (map (\<lambda>i. (metadata st ! i, inner_product v (index_xb ix ! i))) pos)
          \<and> search tie st (Arr2 (length v) [v]) k = search tie st (Arr1 v) k
          \<and> length pos = min (nat k) (ntotal ix)
          \<and> length pos \<le> nat k
          \<and> distinct pos
          \<and> (\<forall>i\<in>set pos. i < ntotal ix)
          \<and> sorted_wrt (\<lambda>i j. inner_product v (index_xb ix ! i) \<ge> inner_product v (index_xb ix ! j)) pos
          \<and> (\<forall>j<ntotal ix. j \<notin> set pos \<longrightarrow>
                (\<forall>i\<in>set pos. inner_product v (index_xb ix ! j) \<le> inner_product v (index_xb ix ! i)))"
    using tp by (intro exI [of _ ?pos] conjI)
qed


theorem search_results_witness:
  "search example_tie (FaissVectorStore_init example_settings None) (Arr1 [1, 0]) 2 = Inr []
   \<and> (\<exists>pos. search example_tie example_store (Arr1 [1, 0]) 2
                 = Inr (map (\<lambda>i. (metadata example_store ! i,
                                    inner_product [1, 0]
                                      (index_xb \<lparr>index_d = 2, index_xb = [[1, 0], [0, 1], [1, 0]]\<rparr> ! i)))
                          pos)
          \<and> length pos = 2 \<and> distinct pos)"
proof -
  let ?ix = "\<lparr>index_d = 2, index_xb = [[1, 0], [0, 1], [1, 0 :: real]]\<rparr>"
  have empty: "search example_tie (FaissVectorStore_init example_settings None) (Arr1 [1, 0]) 2 = Inr []"
    by (rule search_results [THEN conjunct1, THEN mp]) (simp add: fresh_store_eq)
  have hyp: "index example_store = Some ?ix \<and> ntotal ?ix \<noteq> 0
      \<and> length (metadata example_store) = ntotal ?ix \<and> length [1, 0 :: real] = index_d ?ix
      \<and> 0 < (2 :: int)"
    by (simp add: example_store_eq ntotal_def)
  from search_results [THEN conjunct2, THEN mp, OF hyp]
  obtain pos where
    "search example_tie example_store (Arr1 [1, 0]) 2
       = Inr (map (\<lambda>i. (metadata example_store ! i, inner_product [1, 0] (index_xb ?ix ! i))) pos)"
    "length pos = min (nat 2) (ntotal ?ix)" "distinct pos"
    by blast
  then show ?thesis using empty by (auto simp: ntotal_def)
qed

text \<open>
  C5 as stated fails where the index rejects the call: on the example store, whose index
  has width 2, a query vector of width 3 and a \<open>top_k\<close> of 0 both end in the
  \<^verbatim>\<open>AssertionError\<close> of the index, not in a list.
\<close>

theorem search_rejects_counterexample:
  "search example_tie example_store (Arr1 [1, 0, 0]) 1 = Inl AssertionError
   \<and> search example_tie example_store (Arr1 [1, 0]) 0 = Inl AssertionError"
  by (simp add: example_store_eq search_def ntotal_def)


section \<open>Properties of the retriever\<close>

lemma sorted_by_score: "sorted_wrt (\<lambda>a b. score a \<ge> score b) (sort_key (\<lambda>x. - score x) xs)"
proof -
  have "sorted (map (\<lambda>x. - score x) (sort_key (\<lambda>x. - score x) xs))"
    by (rule sorted_sort_key)
  then show ?thesis by (simp add: sorted_map)
qed

lemma example_ranked:
  "ranked example_tie \<lparr>index_d = 2, index_xb = [[1, 0], [0, 1], [1, 0]]\<rparr> 5 [1, 0]
     = [(2, 1), (0, 1), (1, 0)]"
  by (simp add: ranked_def example_tie_def ntotal_def inner_product_def upt_rec)

lemma example_search:
  "search example_tie example_store (Arr2 2 [[1, 0]]) 5 =
     Inr [(example_chunk 2, 1), (example_chunk 0, 1), (example_chunk 1, 0)]"
  by (simp add: example_store_eq search_def ntotal_def search_row_def example_ranked py_get_def
      Let_def decode_sentinels)

lemma example_retrieve_scores:
  "map_sum id (map score)
     (retrieve example_tie example_settings example_encode example_store ''q'' top_k) = Inr [1, 1]"
  if "top_k = None \<or> top_k = Some 0 \<or> top_k = Some 5"
proof -
  have k: "(case top_k of None \<Rightarrow> retriever_top_k example_settings
            | Some n \<Rightarrow> if n = 0 then retriever_top_k example_settings else n) = 5"
    using that by (auto simp: example_settings_def)
  show ?thesis
    by (simp add: retrieve_def k example_encode_def example_search)
       (simp add: example_settings_def)
qed

text \<open>
  C3, as amended. Whatever the tie order of the index library is: whenever the
  embedding of the query and the search of the index succeed, \<open>retrieve\<close> returns a list (never an error): every item has a score at or
  above the threshold; every search result at or above the threshold, so also one equal
  to it, is kept; the items are in descending order of score, where equal scores may
  follow each other; and the list is empty when no search result reaches the threshold.
\<close>

theorem retrieve_filtered_sorted:
  assumes enc: "encode [query] = Inr qv"
    and found: "search tie st qv (case top_k of None \<Rightarrow> retriever_top_k cfg
                              | Some n \<Rightarrow> if n = 0 then retriever_top_k cfg else n) = Inr raw"
  shows "\<exists>rs. retrieve tie cfg encode st query top_k = Inr rs
     \<and> (\<forall>x\<in>set rs. score x \<ge> retriever_score_threshold cfg)
     \<and> sorted_wrt (\<lambda>a b. score a \<ge> score b) rs
     \<and> (\<forall>(item, sc)\<in>set raw. sc \<ge> retriever_score_threshold cfg \<longrightarrow>
           \<lparr>rtext = chunk_text item, rsource_file = source_file item, score = sc\<rparr> \<in> set rs)
     \<and> length rs = length (filter (\<lambda>(item, sc). sc \<ge> retriever_score_threshold cfg) raw)
     \<and> ((\<forall>(item, sc)\<in>set raw. sc < retriever_score_threshold cfg) \<longrightarrow> rs = [])"
proof -
  let ?mk = "\<lambda>(item, sc). \<lparr>rtext = chunk_text item, rsource_file = source_file item, score = sc\<rparr>"
  let ?keep = "filter (\<lambda>(item, sc). sc \<ge> retriever_score_threshold cfg) raw"
  let ?rs = "sort_key (\<lambda>x. - score x) (map ?mk ?keep)"
  have r: "retrieve tie cfg encode st query top_k = Inr ?rs"
    using enc found by (simp add: retrieve_def Let_def)
  have 1: "\<forall>x\<in>set ?rs. score x \<ge> retriever_score_threshold cfg" by auto
  have 2: "sorted_wrt (\<lambda>a b. score a \<ge> score b) ?rs" by (rule sorted_by_score)
  have 3: "\<forall>(item, sc)\<in>set raw. sc \<ge> retriever_score_threshold cfg \<longrightarrow>
           \<lparr>rtext = chunk_text item, rsource_file = source_file item, score = sc\<rparr> \<in> set ?rs"
    by force
  have 4: "length ?rs = length ?keep" by simp
  have 5: "(\<forall>(item, sc)\<in>set raw. sc < retriever_score_threshold cfg) \<longrightarrow> ?rs = []"
  proof
    assume low: "\<forall>(item, sc)\<in>set raw. sc < retriever_score_threshold cfg"
    have "?keep = []"
      unfolding filter_empty_conv using low by fastforce
    then show "?rs = []" by simp
  qed
  from r 1 2 3 4 5 show ?thesis by (intro exI [of _ ?rs] conjI)
qed

theorem retrieve_filtered_sorted_witness:
  "\<exists>rs. retrieve example_tie example_settings example_encode example_store ''q'' None = Inr rs
     \<and> sorted_wrt (\<lambda>a b. score a \<ge> score b) rs
     \<and> length rs = 2"
proof -
  have enc: "example_encode [''q''] = Inr (Arr2 2 [[1, 0]])"
    by (simp add: example_encode_def)
  have found: "search example_tie example_store (Arr2 2 [[1, 0]])
      (case None of None \<Rightarrow> retriever_top_k example_settings
       | Some n \<Rightarrow> if n = 0 then retriever_top_k example_settings else n)
      = Inr [(example_chunk 2, 1), (example_chunk 0, 1), (example_chunk 1, 0)]"
    using example_search by (simp add: example_settings_def)
  from retrieve_filtered_sorted
      [where encode = example_encode and query = "''q''" and st = example_store
         and top_k = None and cfg = example_settings and tie = example_tie, OF enc found]
  obtain rs where "retrieve example_tie example_settings example_encode example_store ''q'' None = Inr rs"
    "sorted_wrt (\<lambda>a b. score a \<ge> score b) rs"
    "length rs = length (filter (\<lambda>(item, sc). sc \<ge> retriever_score_threshold example_settings)
          [(example_chunk 2, 1), (example_chunk 0, 1), (example_chunk 1, 0 :: real)])"
    by blast
  then show ?thesis by (auto simp: example_settings_def)
qed


text \<open>
  C3 as stated fails on the order: the example store holds the same vector twice, both
  copies score 1 against the query, and \<open>retrieve\<close> returns two items whose scores are
  both 1, so the result is not strictly descending, in whichever order the two come.
\<close>

theorem retrieve_equal_scores_counterexample:
  "map_sum id (map score)
     (retrieve example_tie example_settings example_encode example_store ''q'' None) = Inr [1, 1]
   \<and> \<not> sorted_wrt (\<lambda>a b. a > b) [1, 1 :: real]"
  by (simp add: example_retrieve_scores)


section \<open>Properties of answer composition\<close>

text \<open>
  C9. If retrieval returns the empty list for a question, \<open>answer\<close> returns the fixed
  message with an empty citation list, whatever the generation capability and the float
  formatting are: the generation capability has no part in the result.
\<close>

theorem answer_without_results:
  assumes "retrieve tie cfg encode st question None = Inr []"
  shows "answer tie cfg encode generate fmt3 round4 st question = Inr (insufficient_message, [])
     \<and> answer tie cfg encode generate fmt3 round4 st question
         = answer tie cfg encode generate' fmt3' round4' st question
     \<and> insufficient_message
         = ''I could not find sufficiently relevant information in the indexed documents.''"
  using assms by (simp add: answer_def compose_def insufficient_message_def)

theorem answer_without_results_witness:
  "answer example_tie example_settings example_encode (\<lambda>prompt. Inl (ExternalError ''unreachable''))
       (\<lambda>x. '''') (\<lambda>x. x) (FaissVectorStore_init example_settings None) ''What is this?''
     = Inr (insufficient_message, [])"
proof -
  have "retrieve example_tie example_settings example_encode (FaissVectorStore_init example_settings None)
          ''What is this?'' None = Inr []"
    by (simp add: retrieve_def example_encode_def search_def fresh_store_eq)
  from answer_without_results [OF this] show ?thesis by blast
qed

section \<open>Properties of ingestion\<close>

lemma clean_empty: "clean [] = []"
  by (simp add: clean_def normalize_whitespace_def strip_def emit_newlines_def)

lemma clean_blank: "clean ''  '' = []"
  by (simp add: clean_def normalize_whitespace_def strip_def emit_newlines_def isspace_def
      zero_width_def)

lemma chunk_loop_empty: "chunk_loop csize step [] src 0 idx = []"
  by (subst chunk_loop.simps) simp

text \<open>
  C8. If the text of the file is extracted and chunking its cleaned text yields no
  chunk, \<open>ingest_path\<close> fails with the \<^verbatim>\<open>ValueError\<close> for an empty document (the
  specification's EmptyDocumentError) and returns the store and the disk unchanged,
  whatever the embedder is: nothing is embedded, inserted or saved. An empty text, as
  read from a zero-byte text file, is such a case for every chunker that
  \<open>TextChunker_init\<close> accepts.
\<close>

theorem ingest_empty_document:
  "(load_text p = Inr raw \<and> chunk_document chunker (clean raw) (path_name p) = Inr [] \<longrightarrow>
      ingest_path load_text encode chunker (st, fs) p =
        (Inl (ValueError (''No text chunks generated for '' @ path_name p)), (st, fs)))
   \<and> (load_text p = Inr [] \<and> TextChunker_init cs ov = Inr chunker \<longrightarrow>
      chunk_document chunker (clean []) (path_name p) = Inr []
      \<and> ingest_path load_text encode chunker (st, fs) p =
        (Inl (ValueError (''No text chunks generated for '' @ path_name p)), (st, fs)))"
proof (intro conjI impI)
  assume "load_text p = Inr raw \<and> chunk_document chunker (clean raw) (path_name p) = Inr []"
  then show "ingest_path load_text encode chunker (st, fs) p =
        (Inl (ValueError (''No text chunks generated for '' @ path_name p)), (st, fs))"
    by (simp add: ingest_path_def Let_def)
next
  assume h: "load_text p = Inr [] \<and> TextChunker_init cs ov = Inr chunker"
  then have "chunk_size chunker - overlap chunker \<noteq> 0"
    by (auto simp: TextChunker_init_def split: if_splits)
  then show c: "chunk_document chunker (clean []) (path_name p) = Inr []"
    by (simp add: chunk_document_def clean_empty chunk_loop_empty Let_def)
  with h show "ingest_path load_text encode chunker (st, fs) p =
        (Inl (ValueError (''No text chunks generated for '' @ path_name p)), (st, fs))"
    by (simp add: ingest_path_def Let_def)
qed

theorem ingest_empty_document_witness:
  "ingest_path (\<lambda>p. Inr []) example_encode \<lparr>chunk_size = 700, overlap = 120\<rparr>
       (example_store, stale_disk) ''./data/uploads/empty.txt''
     = (Inl (ValueError ''No text chunks generated for empty.txt''), (example_store, stale_disk))
   \<and> ingest_path (\<lambda>p. Inr ''  '') example_encode \<lparr>chunk_size = 700, overlap = 120\<rparr>
       (example_store, stale_disk) ''./data/uploads/blank.txt''
     = (Inl (ValueError ''No text chunks generated for blank.txt''), (example_store, stale_disk))"
proof
  show "ingest_path (\<lambda>p. Inr []) example_encode \<lparr>chunk_size = 700, overlap = 120\<rparr>
       (example_store, stale_disk) ''./data/uploads/empty.txt''
     = (Inl (ValueError ''No text chunks generated for empty.txt''), (example_store, stale_disk))"
    using ingest_empty_document
      [where load_text = "\<lambda>p. Inr []" and p = "''./data/uploads/empty.txt''" and cs = 700
         and ov = 120 and chunker = "\<lparr>chunk_size = 700, overlap = 120\<rparr>"
         and encode = example_encode and st = example_store and fs = stale_disk,
       THEN conjunct2]
    by (simp add: TextChunker_init_def path_name_def)
  show "ingest_path (\<lambda>p. Inr ''  '') example_encode \<lparr>chunk_size = 700, overlap = 120\<rparr>
       (example_store, stale_disk) ''./data/uploads/blank.txt''
     = (Inl (ValueError ''No text chunks generated for blank.txt''), (example_store, stale_disk))"
    using ingest_empty_document
      [where load_text = "\<lambda>p. Inr ''  ''" and p = "''./data/uploads/blank.txt''"
         and raw = "''  ''" and chunker = "\<lparr>chunk_size = 700, overlap = 120\<rparr>"
         and encode = example_encode and st = example_store and fs = stale_disk,
       THEN conjunct1]
    by (simp add: clean_blank chunk_document_def chunk_loop_empty path_name_def)
qed


end
